theory Spec2Isabelle
  imports Main
begin

section \<open>The MonetDB control client: status lines and command dispatch\<close>

text \<open>
  A shallow embedding of \<^verbatim>\<open>monetdb/control.py\<close>. Python strings are \<open>string\<close>;
  the delimiters the code looks for (\<open>=\<close>, \<open>:\<close>, \<open>,\<close>, the apostrophe, \<open>#\<close>, the newline)
  are all ASCII. Every \<^verbatim>\<open>raise\<close> of the source, and every exception of a builtin it
  calls, is a value \<open>Inl e\<close> of the result type \<open>error + 'a\<close>.
\<close>

subsection \<open>Exceptions\<close>

text \<open>
  \<open>OperationalError\<close> and \<open>InterfaceError\<close> are the two classes imported from
  \<^verbatim>\<open>monetdb.exceptions\<close>; both carry a message. The others are Python builtins:
  \<open>ValueError\<close> (a failed \<^verbatim>\<open>int()\<close>, a three-way unpacking of a shorter list),
  \<open>StopIteration\<close> (\<^verbatim>\<open>next\<close> on an exhausted iterator), \<open>IndexError\<close>,
  \<open>OverflowError\<close> and \<open>OSError\<close> (what \<^verbatim>\<open>datetime.fromtimestamp\<close> and the
  transport may raise), and \<open>OtherError\<close> for any further exception of a collaborator.
\<close>

datatype error =
    OperationalError string
  | InterfaceError string
  | ValueError
  | StopIteration
  | IndexError
  | OverflowError
  | OSError
  | OtherError string

text \<open>Sequencing of a step that may raise with the code that follows it.\<close>

definition bind_err :: "error + 'a \<Rightarrow> ('a \<Rightarrow> error + 'b) \<Rightarrow> error + 'b" where
  "bind_err m f = (case m of Inl e \<Rightarrow> Inl e | Inr x \<Rightarrow> f x)"

subsection \<open>String builtins\<close>

text \<open>\<^verbatim>\<open>s.startswith(p)\<close>.\<close>

definition startswith :: "string \<Rightarrow> string \<Rightarrow> bool" where
  "startswith s p = (take (length p) s = p)"

text \<open>
  \<^verbatim>\<open>s.split(sep)\<close> for a one-character separator: every occurrence of the
  separator cuts, empty pieces are kept, and the result is never empty
  (\<^verbatim>\<open>"".split(",") == [""]\<close>).
\<close>

fun py_split :: "char \<Rightarrow> string \<Rightarrow> string list" where
  "py_split c [] = [[]]"
| "py_split c (x # xs) =
     (if x = c then [] # py_split c xs
      else (case py_split c xs of [] \<Rightarrow> [[x]] | y # ys \<Rightarrow> (x # y) # ys))"

text \<open>
  \<^verbatim>\<open>s.split(sep, maxsplit)\<close>: only the first \<open>maxsplit\<close> occurrences cut, the last
  piece keeps the remaining separators.
\<close>

fun py_split_max :: "char \<Rightarrow> nat \<Rightarrow> string \<Rightarrow> string list" where
  "py_split_max c 0 s = [s]"
| "py_split_max c (Suc n) [] = [[]]"
| "py_split_max c (Suc n) (x # xs) =
     (if x = c then [] # py_split_max c n xs
      else (case py_split_max c (Suc n) xs of [] \<Rightarrow> [[x]] | y # ys \<Rightarrow> (x # y) # ys))"

text \<open>
  \<^verbatim>\<open>int(s)\<close> on a string, base 10: surrounding whitespace is dropped, then an optional
  sign, then decimal digits, where single underscores may stand between digits.
  Anything else raises \<open>ValueError\<close>, here \<open>None\<close>. The whitespace characters are the
  ASCII ones of \<^verbatim>\<open>str.isspace\<close>: codes 9 to 13, 28 to 31 and 32. Digits and
  whitespace outside ASCII, and the interpreter's optional limit on the number of digits,
  are outside this model; no property below depends on which strings \<^verbatim>\<open>int()\<close>
  accepts, only the evaluated examples do, and their tokens are plain ASCII numerals.
\<close>

definition is_space :: "char \<Rightarrow> bool" where
  "is_space c = (let n = (of_char c :: nat) in (9 \<le> n \<and> n \<le> 13) \<or> (28 \<le> n \<and> n \<le> 32))"

definition strip :: "string \<Rightarrow> string" where
  "strip s = rev (dropWhile is_space (rev (dropWhile is_space s)))"

definition digit_of :: "char \<Rightarrow> int option" where
  "digit_of c = (let n = (of_char c :: int) in if 48 \<le> n \<and> n \<le> 57 then Some (n - 48) else None)"

fun py_digits :: "int \<Rightarrow> string \<Rightarrow> int option" where
  "py_digits acc [] = Some acc"
| "py_digits acc (c # cs) =
     (if c = CHR ''_'' then
        (case cs of
           [] \<Rightarrow> None
         | d # ds \<Rightarrow> (case digit_of d of None \<Rightarrow> None | Some n \<Rightarrow> py_digits (acc * 10 + n) ds))
      else (case digit_of c of None \<Rightarrow> None | Some n \<Rightarrow> py_digits (acc * 10 + n) cs))"

definition py_unsigned :: "string \<Rightarrow> int option" where
  "py_unsigned s =
     (case s of
        [] \<Rightarrow> None
      | c # cs \<Rightarrow> (case digit_of c of None \<Rightarrow> None | Some n \<Rightarrow> py_digits n cs))"

definition py_int :: "string \<Rightarrow> int option" where
  "py_int s =
     (case strip s of
        [] \<Rightarrow> None
      | c # cs \<Rightarrow>
          if c = CHR ''-'' then map_option uminus (py_unsigned cs)
          else if c = CHR ''+'' then py_unsigned cs
          else py_unsigned (c # cs))"

definition int_of :: "string \<Rightarrow> error + int" where
  "int_of s = (case py_int s of None \<Rightarrow> Inl ValueError | Some v \<Rightarrow> Inr v)"

subsection \<open>The status record\<close>

text \<open>
  \<^verbatim>\<open>parse_statusline\<close> returns a dict with a fixed set of keys, here a record.
  The types of \<^verbatim>\<open>datetime\<close> values and of floats are parameters \<open>'d\<close> and \<open>'f\<close>.
  The key \<^verbatim>\<open>last_stop\<close> is only set under protocol version 2: \<open>None\<close> is the missing
  key, \<open>Some None\<close> the key bound to \<^verbatim>\<open>None\<close>. \<^verbatim>\<open>scenarios\<close> is the list that
  \<^verbatim>\<open>split\<close> returns.
\<close>

record ('d, 'f) info =
  name :: string
  path :: string
  locked :: bool
  state :: int
  scenarios :: "string list"
  start_counter :: int
  stop_counter :: int
  crash_counter :: int
  avg_uptime :: int
  max_uptime :: int
  min_uptime :: int
  last_crash :: "'d option"
  last_start :: 'd
  last_stop :: "'d option option"
  crash_avg1 :: bool
  crash_avg10 :: 'f
  crash_avg30 :: 'f

subsection \<open>The token iterator\<close>

text \<open>
  \<^verbatim>\<open>sub_iter = iter(subparts)\<close> is the list of the tokens not yet consumed;
  \<^verbatim>\<open>next(sub_iter)\<close> returns the first one and the advanced iterator, and raises
  \<open>StopIteration\<close> on the empty list. \<open>next_int\<close> is \<^verbatim>\<open>int(next(sub_iter))\<close>.
\<close>

definition next_tok :: "string list \<Rightarrow> error + (string \<times> string list)" where
  "next_tok it = (case it of [] \<Rightarrow> Inl StopIteration | t # ts \<Rightarrow> Inr (t, ts))"

definition next_int :: "string list \<Rightarrow> error + (int \<times> string list)" where
  "next_int it =
     bind_err (next_tok it) (\<lambda>(t, it'). bind_err (int_of t) (\<lambda>v. Inr (v, it')))"

subsection \<open>parse_statusline\<close>

text \<open>
  The two library calls whose results are not strings or integers are parameters:
  \<open>fromtimestamp\<close> is \<^verbatim>\<open>datetime.fromtimestamp\<close> and \<open>float_of\<close> is \<^verbatim>\<open>float\<close>;
  each may raise. \<open>decode_fields\<close> is the body of \<^verbatim>\<open>parse_statusline\<close> from
  \<^verbatim>\<open>sub_iter = iter(subparts)\<close> to the \<^verbatim>\<open>return\<close>, in the order of the source.
\<close>

definition decode_fields ::
  "(int \<Rightarrow> error + 'd) \<Rightarrow> (string \<Rightarrow> error + 'f) \<Rightarrow> int \<Rightarrow> string list \<Rightarrow> error + ('d, 'f) info"
where
  "decode_fields fromtimestamp float_of prot_version subparts =
     bind_err (next_tok subparts) (\<lambda>(v_name, it1).
     bind_err (next_tok it1) (\<lambda>(v_path, it2).
     bind_err (next_tok it2) (\<lambda>(t_locked, it3).
     bind_err (next_int it3) (\<lambda>(v_state, it4).
     bind_err (next_tok it4) (\<lambda>(t_scenarios, it5).
     bind_err (if prot_version = 1
               then bind_err (next_tok it5) (\<lambda>(skipped, it). Inr it)
               else Inr it5) (\<lambda>it6.
     bind_err (next_int it6) (\<lambda>(v_start_counter, it7).
     bind_err (next_int it7) (\<lambda>(v_stop_counter, it8).
     bind_err (next_int it8) (\<lambda>(v_crash_counter, it9).
     bind_err (next_int it9) (\<lambda>(v_avg_uptime, it10).
     bind_err (next_int it10) (\<lambda>(v_max_uptime, it11).
     bind_err (next_int it11) (\<lambda>(v_min_uptime, it12).
     bind_err (next_int it12) (\<lambda>(n_last_crash, it13).
     bind_err (if n_last_crash \<ge> 0
               then bind_err (fromtimestamp n_last_crash) (\<lambda>d. Inr (Some d))
               else Inr None) (\<lambda>v_last_crash.
     bind_err (next_int it13) (\<lambda>(n_last_start, it14).
     bind_err (fromtimestamp n_last_start) (\<lambda>v_last_start.
     bind_err (if prot_version > 1
               then bind_err (next_int it14) (\<lambda>(val, it).
                    bind_err (if val > - 1
                              then bind_err (fromtimestamp val) (\<lambda>d. Inr (Some d))
                              else Inr None) (\<lambda>v. Inr (Some v, it)))
               else Inr (None, it14)) (\<lambda>(v_last_stop, it15).
     bind_err (next_tok it15) (\<lambda>(t_crash_avg1, it16).
     bind_err (next_tok it16) (\<lambda>(t_crash_avg10, it17).
     bind_err (float_of t_crash_avg10) (\<lambda>v_crash_avg10.
     bind_err (next_tok it17) (\<lambda>(t_crash_avg30, it18).
     bind_err (float_of t_crash_avg30) (\<lambda>v_crash_avg30.
       Inr \<lparr> name = v_name, path = v_path, locked = (t_locked = ''1''),
             state = v_state, scenarios = py_split (CHR 0x27) t_scenarios,
             start_counter = v_start_counter, stop_counter = v_stop_counter,
             crash_counter = v_crash_counter, avg_uptime = v_avg_uptime,
             max_uptime = v_max_uptime, min_uptime = v_min_uptime,
             last_crash = v_last_crash, last_start = v_last_start,
             last_stop = v_last_stop, crash_avg1 = (t_crash_avg1 = ''1''),
             crash_avg10 = v_crash_avg10, crash_avg30 = v_crash_avg30 \<rparr>
     ))))))))))))))))))))))"

text \<open>
  The two lines \<^verbatim>\<open>if line.startswith("="): line = line[1:]\<close>, which open both
  \<^verbatim>\<open>parse_statusline\<close> and the loop body of \<^verbatim>\<open>Control.get\<close>.
\<close>

definition strip_marker :: "string \<Rightarrow> string" where
  "strip_marker line = (if startswith line ''='' then tl line else line)"

text \<open>
  The unpacking \<^verbatim>\<open>code, prot_version, rest = line.split(":", 2)\<close> raises
  \<open>ValueError\<close> unless the split has exactly three pieces. The version is compared as a
  string with \<^verbatim>\<open>["1", "2"]\<close> before it is converted.
\<close>

definition parse_statusline ::
  "(int \<Rightarrow> error + 'd) \<Rightarrow> (string \<Rightarrow> error + 'f) \<Rightarrow> string \<Rightarrow> error + ('d, 'f) info"
where
  "parse_statusline fromtimestamp float_of line0 =
     (let line = strip_marker line0 in
      if \<not> startswith line ''sabdb:'' then Inl (OperationalError ''wrong result recieved'')
      else
        (case py_split_max (CHR '':'') 2 line of
           [code, prot_version, rest] \<Rightarrow>
             if prot_version \<notin> set [''1'', ''2'']
             then Inl (InterfaceError ''unsupported sabdb protocol'')
             else bind_err (int_of prot_version) (\<lambda>pv.
                    decode_fields fromtimestamp float_of pv (py_split (CHR '','') rest))
         | _ \<Rightarrow> Inl ValueError))"

text \<open>\<^verbatim>\<open>isempty\<close>: raises the result as an \<open>OperationalError\<close> unless it is empty.\<close>

definition isempty :: "string \<Rightarrow> error + bool" where
  "isempty result = (if result \<noteq> [] then Inl (OperationalError result) else Inr True)"

subsection \<open>The transport and the Control object\<close>

text \<open>
  \<^verbatim>\<open>self.server\<close> is a \<^verbatim>\<open>mapi.Connection\<close>, a collaborator outside this module.
  It is a parameter: a state of any type \<open>'s\<close> and the three methods the module calls,
  each returning the new state. \<open>connect\<close> and \<open>disconnect\<close> return \<open>Some e\<close> when
  they raise \<open>e\<close>; \<open>cmd\<close> returns the reply or raises.
\<close>

record conn_args =
  arg_hostname :: "string option"
  arg_port :: int
  arg_username :: string
  arg_password :: "string option"
  arg_database :: string
  arg_language :: string
  arg_unix_socket :: string

record 's transport =
  connect :: "conn_args \<Rightarrow> 's \<Rightarrow> error option \<times> 's"
  cmd :: "string \<Rightarrow> 's \<Rightarrow> (error + string) \<times> 's"
  disconnect :: "'s \<Rightarrow> error option \<times> 's"

text \<open>The attributes \<^verbatim>\<open>__init__\<close> stores, read by every command.\<close>

record control =
  hostname :: "string option"
  port :: int
  passphrase :: "string option"
  unix_socket :: string

text \<open>The keyword arguments of the \<^verbatim>\<open>connect\<close> call in \<^verbatim>\<open>_send_command\<close>.\<close>

definition connect_args :: "control \<Rightarrow> conn_args" where
  "connect_args self =
     \<lparr> arg_hostname = hostname self, arg_port = port self, arg_username = ''monetdb'',
       arg_password = passphrase self, arg_database = ''merovingian'',
       arg_language = ''control'', arg_unix_socket = unix_socket self \<rparr>"

text \<open>
  \<^verbatim>\<open>Control._send_command\<close>. The \<^verbatim>\<open>connect\<close> call stands before the
  \<^verbatim>\<open>try\<close>: when it raises, nothing else runs. Inside the \<^verbatim>\<open>try\<close>, \<^verbatim>\<open>cmd\<close> returns
  or raises, and the \<^verbatim>\<open>finally\<close> clause calls \<^verbatim>\<open>disconnect\<close> in both cases;
  an exception of \<^verbatim>\<open>disconnect\<close> itself replaces the outcome of \<^verbatim>\<open>cmd\<close>.
\<close>

definition send_command ::
  "'s transport \<Rightarrow> control \<Rightarrow> string \<Rightarrow> string \<Rightarrow> 's \<Rightarrow> (error + string) \<times> 's"
where
  "send_command server self database_name command s =
     (case connect server (connect_args self) s of
        (Some e, s1) \<Rightarrow> (Inl e, s1)
      | (None, s1) \<Rightarrow>
          (case cmd server (database_name @ '' '' @ command @ ''\<newline>'') s1 of
             (r, s2) \<Rightarrow>
               (case disconnect server s2 of
                  (Some e, s3) \<Rightarrow> (Inl e, s3)
                | (None, s3) \<Rightarrow> (r, s3))))"

text \<open>
  What a method does with the reply of \<^verbatim>\<open>_send_command\<close>: an exception of the
  send step propagates, a reply is handed to the code that follows.
\<close>

definition on_reply ::
  "(string \<Rightarrow> error + 'a) \<Rightarrow> (error + string) \<times> 's \<Rightarrow> (error + 'a) \<times> 's"
where
  "on_reply f out = (case out of (r, s) \<Rightarrow> (bind_err r f, s))"

subsection \<open>The commands\<close>

definition create :: "'s transport \<Rightarrow> control \<Rightarrow> string \<Rightarrow> 's \<Rightarrow> (error + bool) \<times> 's" where
  "create server self database_name s =
     on_reply isempty (send_command server self database_name ''create'' s)"

definition destroy :: "'s transport \<Rightarrow> control \<Rightarrow> string \<Rightarrow> 's \<Rightarrow> (error + bool) \<times> 's" where
  "destroy server self database_name s =
     on_reply isempty (send_command server self database_name ''destroy'' s)"

definition lock :: "'s transport \<Rightarrow> control \<Rightarrow> string \<Rightarrow> 's \<Rightarrow> (error + bool) \<times> 's" where
  "lock server self database_name s =
     on_reply isempty (send_command server self database_name ''lock'' s)"

definition release :: "'s transport \<Rightarrow> control \<Rightarrow> string \<Rightarrow> 's \<Rightarrow> (error + bool) \<times> 's" where
  "release server self database_name s =
     on_reply isempty (send_command server self database_name ''release'' s)"

definition start :: "'s transport \<Rightarrow> control \<Rightarrow> string \<Rightarrow> 's \<Rightarrow> (error + bool) \<times> 's" where
  "start server self database_name s =
     on_reply isempty (send_command server self database_name ''start'' s)"

definition stop :: "'s transport \<Rightarrow> control \<Rightarrow> string \<Rightarrow> 's \<Rightarrow> (error + bool) \<times> 's" where
  "stop server self database_name s =
     on_reply isempty (send_command server self database_name ''stop'' s)"

definition kill :: "'s transport \<Rightarrow> control \<Rightarrow> string \<Rightarrow> 's \<Rightarrow> (error + bool) \<times> 's" where
  "kill server self database_name s =
     on_reply isempty (send_command server self database_name ''kill'' s)"

text \<open>\<^verbatim>\<open>Control.set\<close> (the name \<open>set\<close> is taken in HOL).\<close>

definition set_property ::
  "'s transport \<Rightarrow> control \<Rightarrow> string \<Rightarrow> string \<Rightarrow> string \<Rightarrow> 's \<Rightarrow> (error + bool) \<times> 's"
where
  "set_property server self database_name property val s =
     on_reply isempty (send_command server self database_name (property @ ''='' @ val) s)"

definition inherit ::
  "'s transport \<Rightarrow> control \<Rightarrow> string \<Rightarrow> string \<Rightarrow> 's \<Rightarrow> (error + bool) \<times> 's"
where
  "inherit server self database_name property s =
     on_reply isempty (send_command server self database_name (property @ ''='') s)"

definition rename ::
  "'s transport \<Rightarrow> control \<Rightarrow> string \<Rightarrow> string \<Rightarrow> 's \<Rightarrow> (error + bool) \<times> 's"
where
  "rename server self old new s = set_property server self old ''name'' new s"

definition neighbours :: "'s transport \<Rightarrow> control \<Rightarrow> 's \<Rightarrow> (error + string) \<times> 's" where
  "neighbours server self s = send_command server self ''anelosimus'' ''eximius'' s"

subsection \<open>status\<close>

text \<open>
  The argument of \<^verbatim>\<open>status\<close> is a database name or its default \<^verbatim>\<open>False\<close>, here
  \<open>None\<close>. \<open>truthy\<close> is the test \<^verbatim>\<open>if database_name:\<close>, false for \<^verbatim>\<open>False\<close> and for
  the empty string; \<open>str_of\<close> is what \<^verbatim>\<open>"%s"\<close> formats the argument to. The result is
  one record or a list of records.
\<close>

definition truthy :: "string option \<Rightarrow> bool" where
  "truthy database_name = (case database_name of None \<Rightarrow> False | Some n \<Rightarrow> n \<noteq> [])"

definition str_of :: "string option \<Rightarrow> string" where
  "str_of database_name = (case database_name of None \<Rightarrow> ''False'' | Some n \<Rightarrow> n)"

datatype ('d, 'f) status_result = One "('d, 'f) info" | Many "('d, 'f) info list"

text \<open>
  The list comprehension \<^verbatim>\<open>[parse_statusline(line) for line in ...]\<close>: the lines are
  parsed in order and the first exception ends the comprehension.
\<close>

fun parse_all ::
  "(int \<Rightarrow> error + 'd) \<Rightarrow> (string \<Rightarrow> error + 'f) \<Rightarrow> string list \<Rightarrow> error + ('d, 'f) info list"
where
  "parse_all fromtimestamp float_of [] = Inr []"
| "parse_all fromtimestamp float_of (line # lines) =
     bind_err (parse_statusline fromtimestamp float_of line) (\<lambda>i.
     bind_err (parse_all fromtimestamp float_of lines) (\<lambda>is. Inr (i # is)))"

definition status ::
  "(int \<Rightarrow> error + 'd) \<Rightarrow> (string \<Rightarrow> error + 'f) \<Rightarrow> 's transport \<Rightarrow> control \<Rightarrow>
   string option \<Rightarrow> 's \<Rightarrow> (error + ('d, 'f) status_result) \<times> 's"
where
  "status fromtimestamp float_of server self database_name s =
     (if truthy database_name then
        on_reply (\<lambda>raw. bind_err (parse_statusline fromtimestamp float_of raw) (\<lambda>i. Inr (One i)))
          (send_command server self (str_of database_name) ''status'' s)
      else
        on_reply (\<lambda>raw. bind_err (parse_all fromtimestamp float_of (py_split (CHR ''\<newline>'') raw))
                          (\<lambda>is. Inr (Many is)))
          (send_command server self ''#all'' ''status'' s))"

subsection \<open>get\<close>

text \<open>
  The loop of \<^verbatim>\<open>Control.get\<close> over the lines of the reply, with the dict
  \<^verbatim>\<open>values\<close> as a map. \<^verbatim>\<open>split[0]\<close> and \<^verbatim>\<open>split[1]\<close> are the first two pieces of
  \<^verbatim>\<open>line.split("=")\<close>; an index out of range would raise \<open>IndexError\<close>.
\<close>

fun get_loop :: "string list \<Rightarrow> (string \<rightharpoonup> string) \<Rightarrow> error + (string \<rightharpoonup> string)" where
  "get_loop [] vals = Inr vals"
| "get_loop (line0 # lines) vals =
     (let line = strip_marker line0 in
      if \<not> startswith line ''#'' then
        if CHR ''='' \<in> set line then
          (case py_split (CHR ''='') line of
             k # v # others \<Rightarrow> get_loop lines (vals(k \<mapsto> v))
           | _ \<Rightarrow> Inl IndexError)
        else get_loop lines vals
      else get_loop lines vals)"

definition get ::
  "'s transport \<Rightarrow> control \<Rightarrow> string \<Rightarrow> 's \<Rightarrow> (error + (string \<rightharpoonup> string)) \<times> 's"
where
  "get server self database_name s =
     on_reply (\<lambda>properties. get_loop (py_split (CHR ''\<newline>'') properties) Map.empty)
       (send_command server self database_name ''get'' s)"

definition defaults :: "'s transport \<Rightarrow> control \<Rightarrow> 's \<Rightarrow> (error + (string \<rightharpoonup> string)) \<times> 's" where
  "defaults server self s = get server self ''#defaults'' s"

section \<open>Properties\<close>

subsection \<open>Auxiliary facts\<close>

text \<open>
  The definitions a concrete line is evaluated with.
\<close>

lemmas eval_simps = parse_statusline_def strip_marker_def startswith_def decode_fields_def
  next_tok_def next_int_def int_of_def py_int_def py_unsigned_def strip_def
  is_space_def digit_of_def bind_err_def numeral_2_eq_2

text \<open>
  Sequencing, the token iterator and the reply of the send step.
\<close>

lemma on_reply_Inr: "on_reply f (Inr reply, s) = (f reply, s)"
  by (simp add: on_reply_def bind_err_def)

lemma on_reply_Inl: "on_reply f (Inl e, s) = (Inl e, s)"
  by (simp add: on_reply_def bind_err_def)

lemma bind_err_Inr_iff: "bind_err m f = Inr y \<longleftrightarrow> (\<exists>x. m = Inr x \<and> f x = Inr y)"
  by (cases m) (simp_all add: bind_err_def)

lemma bind_err_Inl_iff: "bind_err m f = Inl e \<longleftrightarrow> m = Inl e \<or> (\<exists>x. m = Inr x \<and> f x = Inl e)"
  by (cases m) (simp_all add: bind_err_def)

lemma bind_err_returns:
  assumes "bind_err m f = Inr y"
  obtains x where "m = Inr x" "f x = Inr y"
  using assms by (cases m) (simp_all add: bind_err_def)

lemma bind_err_raises:
  assumes "bind_err m f = Inl e"
  obtains "m = Inl e" | x where "m = Inr x" "f x = Inl e"
  using assms by (cases m) (simp_all add: bind_err_def)

lemma next_tok_Inr_iff: "next_tok it = Inr (t, it') \<longleftrightarrow> it = t # it'"
  by (cases it) (auto simp: next_tok_def)

lemma next_tok_Inl_iff: "next_tok it = Inl e \<longleftrightarrow> it = [] \<and> e = StopIteration"
  by (cases it) (auto simp: next_tok_def)

lemma int_of_Inr_iff: "int_of t = Inr v \<longleftrightarrow> py_int t = Some v"
  by (simp add: int_of_def split: option.splits)

lemma int_of_Inl_iff: "int_of t = Inl e \<longleftrightarrow> py_int t = None \<and> e = ValueError"
  by (auto simp add: int_of_def split: option.splits)

lemma next_int_Inr_iff: "next_int it = Inr (v, it') \<longleftrightarrow> (\<exists>t. it = t # it' \<and> py_int t = Some v)"
  by (auto simp: next_int_def bind_err_Inr_iff next_tok_Inr_iff int_of_Inr_iff)

lemma next_int_Inl_iff:
  "next_int it = Inl e \<longleftrightarrow>
     (it = [] \<and> e = StopIteration) \<or> (\<exists>t ts. it = t # ts \<and> py_int t = None \<and> e = ValueError)"
  by (auto simp: next_int_def bind_err_Inl_iff next_tok_Inl_iff next_tok_Inr_iff int_of_Inl_iff)

lemma int_of_versions: "int_of ''1'' = Inr 1" "int_of ''2'' = Inr 2"
  by (simp_all add: int_of_def py_int_def py_unsigned_def strip_def is_space_def digit_of_def)

text \<open>
  What a successful positional decode says about the token list and the record, for each
  protocol version: seventeen tokens at least, and the tokens the scenarios and the
  timestamps come from.
\<close>

lemma decode_fields_Inr_v2:
  assumes "decode_fields ft fl 2 toks = Inr info"
  shows "\<exists>lc ls.
           17 \<le> length toks \<and> scenarios info = py_split (CHR 0x27) (toks ! 4)
         \<and> py_int (toks ! 11) = Some lc \<and> (last_crash info = None \<longleftrightarrow> lc < 0)
         \<and> (0 \<le> lc \<longrightarrow> map_sum id Some (ft lc) = Inr (last_crash info))
         \<and> py_int (toks ! 13) = Some ls \<and> (last_stop info = Some None \<longleftrightarrow> ls < 0)
         \<and> (0 \<le> ls \<longrightarrow> map_sum id (Some \<circ> Some) (ft ls) = Inr (last_stop info))"
  using assms unfolding decode_fields_def
  by (auto elim!: bind_err_returns simp: next_tok_Inr_iff next_int_Inr_iff split: if_splits)

lemma decode_fields_Inr_v1:
  assumes "decode_fields ft fl 1 toks = Inr info"
  shows "\<exists>lc.
           17 \<le> length toks \<and> scenarios info = py_split (CHR 0x27) (toks ! 4)
         \<and> py_int (toks ! 12) = Some lc \<and> (last_crash info = None \<longleftrightarrow> lc < 0)
         \<and> (0 \<le> lc \<longrightarrow> map_sum id Some (ft lc) = Inr (last_crash info))
         \<and> last_stop info = None"
  using assms unfolding decode_fields_def
  by (auto elim!: bind_err_returns simp: next_tok_Inr_iff next_int_Inr_iff split: if_splits)

text \<open>
  The exceptions the positional decode can raise: \<open>StopIteration\<close> of the exhausted
  iterator, \<open>ValueError\<close> of \<^verbatim>\<open>int()\<close>, or what the two library calls raise.
\<close>

lemma decode_fields_Inl_kind:
  assumes "decode_fields ft fl pv toks = Inl e"
  shows "e = StopIteration \<or> e = ValueError \<or> (\<exists>n. ft n = Inl e) \<or> (\<exists>s. fl s = Inl e)"
  using assms unfolding decode_fields_def
  by (auto elim!: bind_err_raises simp: next_tok_Inl_iff next_int_Inl_iff split: if_splits) blast+

text \<open>
  The head of \<^verbatim>\<open>parse_statusline\<close>: with the tag present and a three-way split, the
  version string alone decides between the two decodes and the \<open>InterfaceError\<close>.
\<close>

lemma parse_statusline_header:
  assumes "startswith (strip_marker line) ''sabdb:''"
    and "py_split_max (CHR '':'') 2 (strip_marker line) = [code, v, rest]"
  shows "parse_statusline ft fl line =
           (if v = ''1'' then decode_fields ft fl 1 (py_split (CHR '','') rest)
            else if v = ''2'' then decode_fields ft fl 2 (py_split (CHR '','') rest)
            else Inl (InterfaceError ''unsupported sabdb protocol''))"
  using assms by (simp add: parse_statusline_def int_of_versions bind_err_def)

lemma parse_statusline_Inr_tag:
  assumes "parse_statusline ft fl line = Inr info"
  shows "startswith (strip_marker line) ''sabdb:''"
  using assms by (simp add: parse_statusline_def Let_def split: if_splits)

lemma parse_statusline_Inr_decode:
  assumes "parse_statusline ft fl line = Inr info"
    and "py_split_max (CHR '':'') 2 (strip_marker line) = [code, v, rest]"
  shows "(v = ''1'' \<and> decode_fields ft fl 1 (py_split (CHR '','') rest) = Inr info) \<or>
         (v = ''2'' \<and> decode_fields ft fl 2 (py_split (CHR '','') rest) = Inr info)"
  using assms parse_statusline_header [OF parse_statusline_Inr_tag [OF assms(1)] assms(2), of ft fl]
  by (auto split: if_splits)

text \<open>
  The list comprehension of \<^verbatim>\<open>status\<close> returns exactly when every line parses, with
  the records in the order of the lines.
\<close>

lemma parse_all_Inr_iff:
  "parse_all ft fl ls = Inr recs \<longleftrightarrow> map (parse_statusline ft fl) ls = map Inr recs"
proof (induction ls arbitrary: recs)
  case Nil
  then show ?case by auto
next
  case (Cons l ls)
  show ?case
    by (auto simp: bind_err_Inr_iff Cons.IH Cons_eq_map_conv)
qed

text \<open>
  \<^verbatim>\<open>split\<close> never returns the empty list, and a string that contains the separator
  splits into two pieces at least: the \<open>IndexError\<close> branch of \<open>get_loop\<close> is never
  taken, and the loop always returns a dict.
\<close>

lemma py_split_nonempty: "py_split c s \<noteq> []"
  by (induction s) (auto split: list.splits)

lemma py_split_two: "c \<in> set s \<Longrightarrow> \<exists>k v others. py_split c s = k # v # others"
proof (induction s)
  case Nil
  then show ?case by simp
next
  case (Cons x xs)
  show ?case
  proof (cases "x = c")
    case True
    then show ?thesis using py_split_nonempty [of c xs] by (cases "py_split c xs") auto
  next
    case False
    with Cons show ?thesis by auto
  qed
qed

lemma get_loop_returns: "\<exists>m. get_loop ls vals = Inr m"
proof (induction ls arbitrary: vals)
  case Nil
  then show ?case by simp
next
  case (Cons l ls)
  show ?case
  proof (cases "\<not> startswith (strip_marker l) ''#'' \<and> CHR ''='' \<in> set (strip_marker l)")
    case True
    with py_split_two [of "CHR ''=''" "strip_marker l"]
    obtain k v others where "py_split (CHR ''='') (strip_marker l) = k # v # others" by blast
    moreover obtain m where "get_loop ls (vals(k \<mapsto> v)) = Inr m"
      using Cons.IH by blast
    ultimately show ?thesis using True by (simp add: Let_def)
  next
    case False
    with Cons.IH [of vals] show ?thesis by (auto simp: Let_def)
  qed
qed

subsection \<open>C1: mutating commands and the empty reply\<close>

text \<open>
  Claim C1. For each of the ten mutating commands (create, destroy, lock, release, start,
  stop, kill, set, inherit, rename): when the send step returns the reply \<open>reply\<close>, the
  command returns \<open>True\<close> without raising if the reply is the empty string, and raises
  an \<open>OperationalError\<close> whose message is the reply, unchanged, if it is not.
\<close>

theorem mutating_commands_reply:
  fixes server :: "'s transport"
  shows
  "(send_command server self db ''create'' s = (Inr reply, s') \<longrightarrow>
      create server self db s = (if reply = [] then Inr True else Inl (OperationalError reply), s')) \<and>
   (send_command server self db ''destroy'' s = (Inr reply, s') \<longrightarrow>
      destroy server self db s = (if reply = [] then Inr True else Inl (OperationalError reply), s')) \<and>
   (send_command server self db ''lock'' s = (Inr reply, s') \<longrightarrow>
      lock server self db s = (if reply = [] then Inr True else Inl (OperationalError reply), s')) \<and>
   (send_command server self db ''release'' s = (Inr reply, s') \<longrightarrow>
      release server self db s = (if reply = [] then Inr True else Inl (OperationalError reply), s')) \<and>
   (send_command server self db ''start'' s = (Inr reply, s') \<longrightarrow>
      start server self db s = (if reply = [] then Inr True else Inl (OperationalError reply), s')) \<and>
   (send_command server self db ''stop'' s = (Inr reply, s') \<longrightarrow>
      stop server self db s = (if reply = [] then Inr True else Inl (OperationalError reply), s')) \<and>
   (send_command server self db ''kill'' s = (Inr reply, s') \<longrightarrow>
      kill server self db s = (if reply = [] then Inr True else Inl (OperationalError reply), s')) \<and>
   (send_command server self db (p @ ''='' @ v) s = (Inr reply, s') \<longrightarrow>
      set_property server self db p v s = (if reply = [] then Inr True else Inl (OperationalError reply), s')) \<and>
   (send_command server self db (p @ ''='') s = (Inr reply, s') \<longrightarrow>
      inherit server self db p s = (if reply = [] then Inr True else Inl (OperationalError reply), s')) \<and>
   (send_command server self db (''name='' @ v) s = (Inr reply, s') \<longrightarrow>
      rename server self db v s = (if reply = [] then Inr True else Inl (OperationalError reply), s'))"
  by (simp add: create_def destroy_def lock_def release_def start_def stop_def kill_def
      set_property_def inherit_def rename_def on_reply_Inr isempty_def)

text \<open>
  The theorem at a transport that replies with its state: the empty reply and the reply
  \<open>no such database\<close>, for every command.
\<close>

theorem mutating_commands_reply_witness:
  "let srv = \<lparr> connect = (\<lambda>a s. (None, s)), cmd = (\<lambda>l s. (Inr s, s)), disconnect = (\<lambda>s. (None, s)) \<rparr>;
       self = \<lparr> hostname = None, port = 50000, passphrase = None, unix_socket = ''/tmp/.s.merovingian.50000'' \<rparr>;
       ok = (Inr True, '''');
       err = (Inl (OperationalError ''no such database''), ''no such database'')
   in create srv self ''db'' '''' = ok \<and> create srv self ''db'' ''no such database'' = err
    \<and> destroy srv self ''db'' '''' = ok \<and> destroy srv self ''db'' ''no such database'' = err
    \<and> lock srv self ''db'' '''' = ok \<and> lock srv self ''db'' ''no such database'' = err
    \<and> release srv self ''db'' '''' = ok \<and> release srv self ''db'' ''no such database'' = err
    \<and> start srv self ''db'' '''' = ok \<and> start srv self ''db'' ''no such database'' = err
    \<and> stop srv self ''db'' '''' = ok \<and> stop srv self ''db'' ''no such database'' = err
    \<and> kill srv self ''db'' '''' = ok \<and> kill srv self ''db'' ''no such database'' = err
    \<and> set_property srv self ''db'' ''port'' ''5000'' '''' = ok
    \<and> set_property srv self ''db'' ''port'' ''5000'' ''no such database'' = err
    \<and> inherit srv self ''db'' ''port'' '''' = ok \<and> inherit srv self ''db'' ''port'' ''no such database'' = err
    \<and> rename srv self ''db'' ''db2'' '''' = ok \<and> rename srv self ''db'' ''db2'' ''no such database'' = err"
proof -
  define srv :: "string transport" where
    "srv = \<lparr> connect = (\<lambda>a s. (None, s)), cmd = (\<lambda>l s. (Inr s, s)), disconnect = (\<lambda>s. (None, s)) \<rparr>"
  define self where
    "self = \<lparr> hostname = None, port = 50000, passphrase = None, unix_socket = ''/tmp/.s.merovingian.50000'' \<rparr>"
  have sent: "send_command srv self db c s = (Inr s, s)" for db c s
    by (simp add: srv_def send_command_def)
  have "create srv self ''db'' '''' = (Inr True, '''') \<and> create srv self ''db'' ''no such database'' = (Inl (OperationalError ''no such database''), ''no such database'')
    \<and> destroy srv self ''db'' '''' = (Inr True, '''') \<and> destroy srv self ''db'' ''no such database'' = (Inl (OperationalError ''no such database''), ''no such database'')
    \<and> lock srv self ''db'' '''' = (Inr True, '''') \<and> lock srv self ''db'' ''no such database'' = (Inl (OperationalError ''no such database''), ''no such database'')
    \<and> release srv self ''db'' '''' = (Inr True, '''') \<and> release srv self ''db'' ''no such database'' = (Inl (OperationalError ''no such database''), ''no such database'')
    \<and> start srv self ''db'' '''' = (Inr True, '''') \<and> start srv self ''db'' ''no such database'' = (Inl (OperationalError ''no such database''), ''no such database'')
    \<and> stop srv self ''db'' '''' = (Inr True, '''') \<and> stop srv self ''db'' ''no such database'' = (Inl (OperationalError ''no such database''), ''no such database'')
    \<and> kill srv self ''db'' '''' = (Inr True, '''') \<and> kill srv self ''db'' ''no such database'' = (Inl (OperationalError ''no such database''), ''no such database'')
    \<and> set_property srv self ''db'' ''port'' ''5000'' '''' = (Inr True, '''')
    \<and> set_property srv self ''db'' ''port'' ''5000'' ''no such database'' = (Inl (OperationalError ''no such database''), ''no such database'')
    \<and> inherit srv self ''db'' ''port'' '''' = (Inr True, '''') \<and> inherit srv self ''db'' ''port'' ''no such database'' = (Inl (OperationalError ''no such database''), ''no such database'')
    \<and> rename srv self ''db'' ''db2'' '''' = (Inr True, '''') \<and> rename srv self ''db'' ''db2'' ''no such database'' = (Inl (OperationalError ''no such database''), ''no such database'')"
    using mutating_commands_reply [of srv self "''db''" "''''" "''''" "''''" "''port''" "''5000''"]
      mutating_commands_reply [of srv self "''db''" "''''" "''''" "''''" "''port''" "''db2''"]
      mutating_commands_reply [of srv self "''db''" "''no such database''" "''no such database''" "''no such database''" "''port''" "''5000''"]
      mutating_commands_reply [of srv self "''db''" "''no such database''" "''no such database''" "''no such database''" "''port''" "''db2''"]
    by (simp add: sent)
  then show ?thesis
    unfolding srv_def self_def Let_def by simp
qed

subsection \<open>C2: the scenarios field\<close>

text \<open>
  Claim C2 as stated fails on its own example: \<^verbatim>\<open>"'sql'".split("'")\<close> is the list
  of three pieces \<open>["", "sql", ""]\<close>, whose elements are not the set \<open>{"sql"}\<close>.
\<close>

theorem scenarios_not_a_set_counterexample:
  "map_sum id scenarios
     (parse_statusline (Inr :: int \<Rightarrow> error + int) (Inr :: string \<Rightarrow> error + string)
        ''sabdb:2:mydb,/var/db/mydb,0,1,'sql',3,2,0,120,300,10,-1,1700000000,1700005000,1,0.0,0.0'')
     = Inr ['''', ''sql'', ''''] \<and>
   set ['''', ''sql'', ''''] \<noteq> {''sql''}"
  by (simp add: parse_statusline_def strip_marker_def startswith_def decode_fields_def
        next_tok_def next_int_def int_of_def py_int_def py_unsigned_def strip_def
        is_space_def digit_of_def bind_err_def numeral_2_eq_2)

text \<open>
  Claim C2, amended. For every status line the parser returns a record for, the scenarios
  component is the list of pieces that splitting the fifth token on every apostrophe gives,
  in order and with empty pieces kept. In particular, when the library converts the two
  timestamps and the float, the line of the example yields the record with
  \<open>scenarios = ["", "sql", ""]\<close>, \<open>locked = False\<close>, \<open>state = 1\<close>,
  \<open>start_counter = 3\<close>, \<open>last_crash\<close> absent, \<open>last_start\<close> decoded from 1700000000,
  \<open>last_stop\<close> decoded from 1700005000 and \<open>crash_avg1 = True\<close>.
\<close>

theorem scenarios_split_list:
  "(py_split_max (CHR '':'') 2 (strip_marker line) = [code, v, rest] \<and>
    parse_statusline ft fl line = Inr info \<longrightarrow>
      scenarios info = py_split (CHR 0x27) (py_split (CHR '','') rest ! 4)) \<and>
   (ft 1700000000 = Inr da \<and> ft 1700005000 = Inr db \<and> fl ''0.0'' = Inr f \<longrightarrow>
      parse_statusline ft fl
        ''sabdb:2:mydb,/var/db/mydb,0,1,'sql',3,2,0,120,300,10,-1,1700000000,1700005000,1,0.0,0.0''
      = Inr \<lparr> name = ''mydb'', path = ''/var/db/mydb'', locked = False, state = 1,
              scenarios = ['''', ''sql'', ''''], start_counter = 3, stop_counter = 2,
              crash_counter = 0, avg_uptime = 120, max_uptime = 300, min_uptime = 10,
              last_crash = None, last_start = da, last_stop = Some (Some db),
              crash_avg1 = True, crash_avg10 = f, crash_avg30 = f \<rparr>)"
proof (intro conjI impI)
  assume h: "py_split_max (CHR '':'') 2 (strip_marker line) = [code, v, rest] \<and>
    parse_statusline ft fl line = Inr info"
  from parse_statusline_Inr_decode [of ft fl line info code v rest] h
  show "scenarios info = py_split (CHR 0x27) (py_split (CHR '','') rest ! 4)"
    using decode_fields_Inr_v1 [of ft fl "py_split (CHR '','') rest" info]
      decode_fields_Inr_v2 [of ft fl "py_split (CHR '','') rest" info]
    by auto
next
  assume "ft 1700000000 = Inr da \<and> ft 1700005000 = Inr db \<and> fl ''0.0'' = Inr f"
  then show "parse_statusline ft fl
        ''sabdb:2:mydb,/var/db/mydb,0,1,'sql',3,2,0,120,300,10,-1,1700000000,1700005000,1,0.0,0.0''
      = Inr \<lparr> name = ''mydb'', path = ''/var/db/mydb'', locked = False, state = 1,
              scenarios = ['''', ''sql'', ''''], start_counter = 3, stop_counter = 2,
              crash_counter = 0, avg_uptime = 120, max_uptime = 300, min_uptime = 10,
              last_crash = None, last_start = da, last_stop = Some (Some db),
              crash_avg1 = True, crash_avg10 = f, crash_avg30 = f \<rparr>"
    by (simp add: parse_statusline_def strip_marker_def startswith_def decode_fields_def
        next_tok_def next_int_def int_of_def py_int_def py_unsigned_def strip_def
        is_space_def digit_of_def bind_err_def numeral_2_eq_2)
qed

text \<open>
  The theorem at the line of the example, with the identity for both conversions.
\<close>

theorem scenarios_split_list_witness:
  "py_split_max (CHR '':'') 2
     (strip_marker ''sabdb:2:mydb,/var/db/mydb,0,1,'sql',3,2,0,120,300,10,-1,1700000000,1700005000,1,0.0,0.0'')
     = [''sabdb'', ''2'', ''mydb,/var/db/mydb,0,1,'sql',3,2,0,120,300,10,-1,1700000000,1700005000,1,0.0,0.0''] \<and>
   parse_statusline (Inr :: int \<Rightarrow> error + int) (Inr :: string \<Rightarrow> error + string)
     ''sabdb:2:mydb,/var/db/mydb,0,1,'sql',3,2,0,120,300,10,-1,1700000000,1700005000,1,0.0,0.0''
     = Inr \<lparr> name = ''mydb'', path = ''/var/db/mydb'', locked = False, state = 1,
             scenarios = ['''', ''sql'', ''''], start_counter = 3, stop_counter = 2,
             crash_counter = 0, avg_uptime = 120, max_uptime = 300, min_uptime = 10,
             last_crash = None, last_start = 1700000000, last_stop = Some (Some 1700005000),
             crash_avg1 = True, crash_avg10 = ''0.0'', crash_avg30 = ''0.0'' \<rparr> \<and>
   py_split (CHR 0x27)
     (py_split (CHR '','') ''mydb,/var/db/mydb,0,1,'sql',3,2,0,120,300,10,-1,1700000000,1700005000,1,0.0,0.0'' ! 4)
     = ['''', ''sql'', '''']"
proof -
  let ?L = "''sabdb:2:mydb,/var/db/mydb,0,1,'sql',3,2,0,120,300,10,-1,1700000000,1700005000,1,0.0,0.0''"
  let ?R = "''mydb,/var/db/mydb,0,1,'sql',3,2,0,120,300,10,-1,1700000000,1700005000,1,0.0,0.0''"
  let ?rec = "\<lparr> name = ''mydb'', path = ''/var/db/mydb'', locked = False, state = 1,
             scenarios = ['''', ''sql'', ''''], start_counter = 3, stop_counter = 2,
             crash_counter = 0, avg_uptime = 120, max_uptime = 300, min_uptime = 10,
             last_crash = None, last_start = (1700000000::int), last_stop = Some (Some 1700005000),
             crash_avg1 = True, crash_avg10 = ''0.0'', crash_avg30 = ''0.0'' \<rparr>"
  note inst = scenarios_split_list [of "?L" "''sabdb''" "''2''" "?R"
      "Inr :: int \<Rightarrow> error + int" "Inr :: string \<Rightarrow> error + string" "?rec"
      1700000000 1700005000 "''0.0''"]
  have s: "py_split_max (CHR '':'') 2 (strip_marker ?L) = [''sabdb'', ''2'', ?R]"
    by (simp add: strip_marker_def startswith_def numeral_2_eq_2)
  from inst have p: "parse_statusline (Inr :: int \<Rightarrow> error + int) (Inr :: string \<Rightarrow> error + string) ?L = Inr ?rec"
    by simp
  from inst s p have "scenarios ?rec = py_split (CHR 0x27) (py_split (CHR '','') ?R ! 4)"
    by blast
  then have "py_split (CHR 0x27) (py_split (CHR '','') ?R ! 4) = ['''', ''sql'', '''']"
    by simp
  with s p show ?thesis by blast
qed

subsection \<open>C3: the property listing\<close>

text \<open>
  The example of the specification holds: comment lines and the empty last line add
  nothing, and each other line adds one entry.
\<close>

lemma get_loop_example:
  "get_loop (py_split (CHR ''\<newline>'') ''name=foo\<newline>#comment\<newline>port=5000\<newline>'') Map.empty
     = Inr [''name'' \<mapsto> ''foo'', ''port'' \<mapsto> ''5000'']"
  by (simp add: strip_marker_def startswith_def)

text \<open>
  Claim C3. \<^verbatim>\<open>Control.get\<close> splits a line on every \<open>=\<close> and keeps the first two
  pieces, so a value that contains \<open>=\<close> is cut at its first \<open>=\<close>: for the reply
  \<open>url=x?lang=sql\<close> the dict binds \<open>url\<close> to \<open>x?lang\<close>, not to \<open>x?lang=sql\<close>.
\<close>

theorem get_truncates_value_at_second_equals:
  "get \<lparr> connect = (\<lambda>a s. (None, s)),
         cmd = (\<lambda>l s. (Inr ''url=x?lang=sql'', s)),
         disconnect = (\<lambda>s. (None, s)) \<rparr>
       \<lparr> hostname = None, port = 50000, passphrase = None, unix_socket = ''/tmp/.s.merovingian.50000'' \<rparr>
       ''db'' ()
     = (Inr [''url'' \<mapsto> ''x?lang''], ())"
  by (simp add: get_def send_command_def on_reply_Inr strip_marker_def startswith_def)

subsection \<open>C4: a field block that is too short\<close>

text \<open>
  Claim C4 as stated fails: a line with four tokens whose fourth is not an integer raises
  \<open>ValueError\<close>, the exception a line with all seventeen tokens and the same bad token
  raises, and not an error of running out of fields.
\<close>

theorem short_line_other_error_counterexample:
  "length (py_split (CHR '','') ''db,/p,0,up'') < 17 \<and>
   parse_statusline (Inr :: int \<Rightarrow> error + int) (Inr :: string \<Rightarrow> error + string)
     ''sabdb:2:db,/p,0,up'' = Inl ValueError \<and>
   length (py_split (CHR '','') ''db,/p,0,up,sql,3,2,0,120,300,10,-1,1700000000,-1,1,0.0,0.0'') = 17 \<and>
   parse_statusline (Inr :: int \<Rightarrow> error + int) (Inr :: string \<Rightarrow> error + string)
     ''sabdb:2:db,/p,0,up,sql,3,2,0,120,300,10,-1,1700000000,-1,1,0.0,0.0'' = Inl ValueError"
  by (simp add: eval_simps)

text \<open>
  Claim C4, amended. For every status line with the tag, a three-way split and the
  version \<open>1\<close> or \<open>2\<close> whose field block has fewer than seventeen tokens, the parser
  raises and returns no record. The exception is \<open>StopIteration\<close> of the exhausted token
  iterator, unless a token that is present fails to convert first: then it is the
  \<open>ValueError\<close> of \<^verbatim>\<open>int()\<close> or the exception of \<^verbatim>\<open>fromtimestamp\<close> or of
  \<^verbatim>\<open>float\<close>.
\<close>

theorem short_line_raises:
  assumes "startswith (strip_marker line) ''sabdb:''"
    and "py_split_max (CHR '':'') 2 (strip_marker line) = [code, v, rest]"
    and "v = ''1'' \<or> v = ''2''"
    and "length (py_split (CHR '','') rest) < 17"
  shows "\<exists>e. parse_statusline ft fl line = Inl e \<and>
             (e = StopIteration \<or> e = ValueError \<or> (\<exists>n. ft n = Inl e) \<or> (\<exists>s. fl s = Inl e))"
proof -
  let ?toks = "py_split (CHR '','') rest"
  from assms(3)
  have "\<exists>pv::int. (pv = 1 \<or> pv = 2) \<and>
          parse_statusline ft fl line = decode_fields ft fl pv ?toks"
  proof
    assume "v = ''1''"
    then show ?thesis
      using parse_statusline_header [OF assms(1,2), of ft fl] by (intro exI [of _ 1]) simp
  next
    assume "v = ''2''"
    then show ?thesis
      using parse_statusline_header [OF assms(1,2), of ft fl] by (intro exI [of _ 2]) simp
  qed
  then obtain pv :: int where pv: "pv = 1 \<or> pv = 2"
    and eq: "parse_statusline ft fl line = decode_fields ft fl pv ?toks"
    by blast
  have "decode_fields ft fl pv ?toks \<noteq> Inr info" for info
    using decode_fields_Inr_v1 [of ft fl ?toks info] decode_fields_Inr_v2 [of ft fl ?toks info]
      pv assms(4) by auto
  then obtain e where e: "decode_fields ft fl pv ?toks = Inl e"
    by (cases "decode_fields ft fl pv ?toks") auto
  with decode_fields_Inl_kind [OF e] eq show ?thesis by simp
qed

text \<open>
  The theorem at a line with four well-formed tokens: the exception is \<open>StopIteration\<close>.
\<close>

theorem short_line_raises_witness:
  "startswith (strip_marker ''sabdb:2:db,/p,0,1'') ''sabdb:'' \<and>
   py_split_max (CHR '':'') 2 (strip_marker ''sabdb:2:db,/p,0,1'') = [''sabdb'', ''2'', ''db,/p,0,1''] \<and>
   length (py_split (CHR '','') ''db,/p,0,1'') < 17 \<and>
   parse_statusline (Inr :: int \<Rightarrow> error + int) (Inr :: string \<Rightarrow> error + string)
     ''sabdb:2:db,/p,0,1'' = Inl StopIteration"
proof -
  let ?L = "''sabdb:2:db,/p,0,1''"
  have h1: "startswith (strip_marker ?L) ''sabdb:''"
    by (simp add: strip_marker_def startswith_def)
  have h2: "py_split_max (CHR '':'') 2 (strip_marker ?L) = [''sabdb'', ''2'', ''db,/p,0,1'']"
    by (simp add: strip_marker_def startswith_def numeral_2_eq_2)
  have h3: "''2'' = ''1'' \<or> ''2'' = ''2''" by simp
  have h4: "length (py_split (CHR '','') ''db,/p,0,1'') < 17" by simp
  from short_line_raises [OF h1 h2 h3 h4, of "Inr :: int \<Rightarrow> error + int" "Inr :: string \<Rightarrow> error + string"]
  obtain e where e: "parse_statusline (Inr :: int \<Rightarrow> error + int) (Inr :: string \<Rightarrow> error + string) ?L = Inl e"
    "e = StopIteration \<or> e = ValueError"
    by auto
  have "parse_statusline (Inr :: int \<Rightarrow> error + int) (Inr :: string \<Rightarrow> error + string) ?L \<noteq> Inl ValueError"
    by (simp add: eval_simps)
  with e have "parse_statusline (Inr :: int \<Rightarrow> error + int) (Inr :: string \<Rightarrow> error + string) ?L = Inl StopIteration"
    by auto
  with h1 h2 h4 show ?thesis by blast
qed

subsection \<open>C5: a line without the tag\<close>

text \<open>
  Claim C5 as stated fails: the exception for a line without the tag is an
  \<open>OperationalError\<close>, the very exception \<^verbatim>\<open>isempty\<close> raises for a server-reported
  failure with the same text.
\<close>

theorem wrong_tag_same_kind_counterexample:
  "parse_statusline (Inr :: int \<Rightarrow> error + int) (Inr :: string \<Rightarrow> error + string) ''hello''
     = Inl (OperationalError ''wrong result recieved'') \<and>
   isempty ''wrong result recieved'' = Inl (OperationalError ''wrong result recieved'')"
  by (simp add: parse_statusline_def strip_marker_def startswith_def isempty_def)

text \<open>
  Claim C5, amended. For every line that, after one leading \<open>=\<close> is dropped, does not
  begin with \<open>sabdb:\<close>, the parser raises \<open>OperationalError\<close> with the fixed message
  \<open>wrong result recieved\<close>; this is the exception class of server-reported failures, from
  which only the message tells it apart.
\<close>

theorem wrong_tag_operational_error:
  "(\<not> startswith (strip_marker line) ''sabdb:'' \<longrightarrow>
      parse_statusline ft fl line = Inl (OperationalError ''wrong result recieved'')) \<and>
   isempty ''wrong result recieved'' = Inl (OperationalError ''wrong result recieved'')"
  by (simp add: parse_statusline_def isempty_def)

text \<open>
  The theorem at the line \<open>=hello\<close>.
\<close>

theorem wrong_tag_operational_error_witness:
  "\<not> startswith (strip_marker ''=hello'') ''sabdb:'' \<and>
   parse_statusline (Inr :: int \<Rightarrow> error + int) (Inr :: string \<Rightarrow> error + string) ''=hello''
     = Inl (OperationalError ''wrong result recieved'')"
proof -
  have h: "\<not> startswith (strip_marker ''=hello'') ''sabdb:''"
    by (simp add: strip_marker_def startswith_def)
  with wrong_tag_operational_error [of "''=hello''" "Inr :: int \<Rightarrow> error + int" "Inr :: string \<Rightarrow> error + string"]
  show ?thesis by blast
qed

subsection \<open>C6: the version token\<close>

text \<open>
  Claim C6 as stated fails: \<^verbatim>\<open>int("02")\<close> is 2, yet a line with the version token
  \<open>02\<close> is refused, since the token is compared as a string before it is converted.
\<close>

theorem version_zero_two_counterexample:
  "py_int ''02'' = Some 2 \<and>
   parse_statusline (Inr :: int \<Rightarrow> error + int) (Inr :: string \<Rightarrow> error + string)
     ''sabdb:02:mydb,/var/db/mydb,0,1,sql,3,2,0,120,300,10,-1,1700000000,1700005000,1,0.0,0.0''
     = Inl (InterfaceError ''unsupported sabdb protocol'')"
  by (simp add: eval_simps)

text \<open>
  Claim C6, amended. For every status line with the tag and a three-way split, the
  version token is accepted exactly when it is the string \<open>1\<close> or the string \<open>2\<close>, and
  the line is then decoded positionally under that version; every other token, \<open>02\<close>
  included, raises \<open>InterfaceError\<close> with the message \<open>unsupported sabdb protocol\<close> and
  nothing is decoded.
\<close>

theorem version_token_literal:
  assumes "startswith (strip_marker line) ''sabdb:''"
    and "py_split_max (CHR '':'') 2 (strip_marker line) = [code, v, rest]"
  shows "(v \<noteq> ''1'' \<and> v \<noteq> ''2'' \<longrightarrow>
            parse_statusline ft fl line = Inl (InterfaceError ''unsupported sabdb protocol'')) \<and>
         (v = ''1'' \<longrightarrow>
            parse_statusline ft fl line = decode_fields ft fl 1 (py_split (CHR '','') rest)) \<and>
         (v = ''2'' \<longrightarrow>
            parse_statusline ft fl line = decode_fields ft fl 2 (py_split (CHR '','') rest))"
  using parse_statusline_header [OF assms, of ft fl] by simp

text \<open>
  A line with the tag and one colon only never reaches the version test: the three-way
  unpacking raises \<open>ValueError\<close>.
\<close>

lemma single_colon_value_error:
  "parse_statusline ft fl ''sabdb:3'' = Inl ValueError"
  by (simp add: parse_statusline_def strip_marker_def startswith_def numeral_2_eq_2)

text \<open>
  The theorem at the version tokens \<open>3\<close>, \<open>1\<close> and \<open>2\<close>.
\<close>

theorem version_token_literal_witness:
  "parse_statusline (Inr :: int \<Rightarrow> error + int) (Inr :: string \<Rightarrow> error + string) ''sabdb:3:a,b''
     = Inl (InterfaceError ''unsupported sabdb protocol'') \<and>
   parse_statusline (Inr :: int \<Rightarrow> error + int) (Inr :: string \<Rightarrow> error + string) ''sabdb:1:a,b''
     = decode_fields Inr Inr 1 [''a'', ''b''] \<and>
   parse_statusline (Inr :: int \<Rightarrow> error + int) (Inr :: string \<Rightarrow> error + string) ''=sabdb:2:a,b''
     = decode_fields Inr Inr 2 [''a'', ''b'']"
proof -
  have t3: "startswith (strip_marker ''sabdb:3:a,b'') ''sabdb:''"
    and t1: "startswith (strip_marker ''sabdb:1:a,b'') ''sabdb:''"
    and t2: "startswith (strip_marker ''=sabdb:2:a,b'') ''sabdb:''"
    by (simp_all add: strip_marker_def startswith_def)
  have s3: "py_split_max (CHR '':'') 2 (strip_marker ''sabdb:3:a,b'') = [''sabdb'', ''3'', ''a,b'']"
    and s1: "py_split_max (CHR '':'') 2 (strip_marker ''sabdb:1:a,b'') = [''sabdb'', ''1'', ''a,b'']"
    and s2: "py_split_max (CHR '':'') 2 (strip_marker ''=sabdb:2:a,b'') = [''sabdb'', ''2'', ''a,b'']"
    by (simp_all add: strip_marker_def startswith_def numeral_2_eq_2)
  from version_token_literal [OF t3 s3, of "Inr :: int \<Rightarrow> error + int" "Inr :: string \<Rightarrow> error + string"]
    version_token_literal [OF t1 s1, of "Inr :: int \<Rightarrow> error + int" "Inr :: string \<Rightarrow> error + string"]
    version_token_literal [OF t2 s2, of "Inr :: int \<Rightarrow> error + int" "Inr :: string \<Rightarrow> error + string"]
  show ?thesis by simp
qed

subsection \<open>C7: negative timestamps\<close>

text \<open>
  Claim C7. Whenever the parser returns a record, the token of \<open>last_crash\<close> (the
  twelfth under version 2, the thirteenth under version 1) is an integer \<open>lc\<close>, and
  \<open>last_crash\<close> is absent exactly when \<open>lc\<close> is negative; otherwise it is the timestamp
  \<^verbatim>\<open>fromtimestamp\<close> returns for \<open>lc\<close>, also for 0. Under version 2 the same holds of
  \<open>last_stop\<close> and the fourteenth token.
\<close>

theorem timestamps_absent_iff_negative:
  assumes "py_split_max (CHR '':'') 2 (strip_marker line) = [code, v, rest]"
    and "parse_statusline ft fl line = Inr info"
  shows "\<exists>lc. py_int (py_split (CHR '','') rest ! (if v = ''1'' then 12 else 11)) = Some lc \<and>
              (last_crash info = None \<longleftrightarrow> lc < 0) \<and>
              (0 \<le> lc \<longrightarrow> (\<exists>d. ft lc = Inr d \<and> last_crash info = Some d)) \<and>
              (v = ''2'' \<longrightarrow>
                (\<exists>ls. py_int (py_split (CHR '','') rest ! 13) = Some ls \<and>
                      (last_stop info = Some None \<longleftrightarrow> ls < 0) \<and>
                      (0 \<le> ls \<longrightarrow> (\<exists>d. ft ls = Inr d \<and> last_stop info = Some (Some d)))))"
proof -
  let ?toks = "py_split (CHR '','') rest"
  from parse_statusline_Inr_decode [OF assms(2,1)]
  consider (v1) "v = ''1''" "decode_fields ft fl 1 ?toks = Inr info"
    | (v2) "v = ''2''" "decode_fields ft fl 2 ?toks = Inr info"
    by auto
  then show ?thesis
  proof cases
    case v1
    from decode_fields_Inr_v1 [OF v1(2)] obtain lc where
      "py_int (?toks ! 12) = Some lc" "last_crash info = None \<longleftrightarrow> lc < 0"
      "0 \<le> lc \<longrightarrow> map_sum id Some (ft lc) = Inr (last_crash info)"
      by auto
    moreover have "\<exists>d. ft lc = Inr d \<and> last_crash info = Some d"
      if "map_sum id Some (ft lc) = Inr (last_crash info)"
      using that by (cases "ft lc") auto
    ultimately show ?thesis using v1(1) by auto
  next
    case v2
    from decode_fields_Inr_v2 [OF v2(2)] obtain lc ls where *:
      "py_int (?toks ! 11) = Some lc" "last_crash info = None \<longleftrightarrow> lc < 0"
      "0 \<le> lc \<longrightarrow> map_sum id Some (ft lc) = Inr (last_crash info)"
      "py_int (?toks ! 13) = Some ls" "last_stop info = Some None \<longleftrightarrow> ls < 0"
      "0 \<le> ls \<longrightarrow> map_sum id (Some \<circ> Some) (ft ls) = Inr (last_stop info)"
      by auto
    have a: "\<exists>d. ft lc = Inr d \<and> last_crash info = Some d"
      if "map_sum id Some (ft lc) = Inr (last_crash info)"
      using that by (cases "ft lc") auto
    have b: "\<exists>d. ft ls = Inr d \<and> last_stop info = Some (Some d)"
      if "map_sum id (Some \<circ> Some) (ft ls) = Inr (last_stop info)"
      using that by (cases "ft ls") auto
    from * a b v2(1) show ?thesis by auto
  qed
qed

text \<open>
  The theorem at a version 2 line with \<open>last_crash\<close> encoded as 0 and \<open>last_stop\<close> as
  -1: the first decodes to a timestamp, the second to \<^verbatim>\<open>None\<close>.
\<close>

theorem timestamps_absent_iff_negative_witness:
  "parse_statusline (Inr :: int \<Rightarrow> error + int) (Inr :: string \<Rightarrow> error + string)
     ''sabdb:2:mydb,/var/db/mydb,0,1,sql,3,2,0,120,300,10,0,1700000000,-1,1,0.0,0.0''
     = Inr \<lparr> name = ''mydb'', path = ''/var/db/mydb'', locked = False, state = 1,
             scenarios = [''sql''], start_counter = 3, stop_counter = 2,
             crash_counter = 0, avg_uptime = 120, max_uptime = 300, min_uptime = 10,
             last_crash = Some 0, last_start = 1700000000, last_stop = Some None,
             crash_avg1 = True, crash_avg10 = ''0.0'', crash_avg30 = ''0.0'' \<rparr> \<and>
   py_int (py_split (CHR '','') ''mydb,/var/db/mydb,0,1,sql,3,2,0,120,300,10,0,1700000000,-1,1,0.0,0.0'' ! 11)
     = Some 0 \<and>
   py_int (py_split (CHR '','') ''mydb,/var/db/mydb,0,1,sql,3,2,0,120,300,10,0,1700000000,-1,1,0.0,0.0'' ! 13)
     = Some (- 1)"
proof -
  let ?L = "''sabdb:2:mydb,/var/db/mydb,0,1,sql,3,2,0,120,300,10,0,1700000000,-1,1,0.0,0.0''"
  let ?R = "''mydb,/var/db/mydb,0,1,sql,3,2,0,120,300,10,0,1700000000,-1,1,0.0,0.0''"
  let ?rec = "\<lparr> name = ''mydb'', path = ''/var/db/mydb'', locked = False, state = 1,
             scenarios = [''sql''], start_counter = 3, stop_counter = 2,
             crash_counter = 0, avg_uptime = 120, max_uptime = 300, min_uptime = 10,
             last_crash = Some (0::int), last_start = 1700000000, last_stop = Some None,
             crash_avg1 = True, crash_avg10 = ''0.0'', crash_avg30 = ''0.0'' \<rparr>"
  have s: "py_split_max (CHR '':'') 2 (strip_marker ?L) = [''sabdb'', ''2'', ?R]"
    by (simp add: strip_marker_def startswith_def numeral_2_eq_2)
  have p: "parse_statusline (Inr :: int \<Rightarrow> error + int) (Inr :: string \<Rightarrow> error + string) ?L = Inr ?rec"
    by (simp add: eval_simps)
  from timestamps_absent_iff_negative [OF s p]
  obtain lc ls where
    "py_int (py_split (CHR '','') ?R ! 11) = Some lc" "(last_crash ?rec = None) = (lc < 0)"
    "py_int (py_split (CHR '','') ?R ! 13) = Some ls" "(last_stop ?rec = Some None) = (ls < 0)"
    by auto
  then have "\<exists>lc ls. py_int (py_split (CHR '','') ?R ! 11) = Some lc \<and> \<not> lc < 0 \<and>
      py_int (py_split (CHR '','') ?R ! 13) = Some ls \<and> ls < 0"
    by simp
  moreover have "py_int (py_split (CHR '','') ?R ! 11) = Some 0"
    "py_int (py_split (CHR '','') ?R ! 13) = Some (- 1)"
    by (simp_all add: py_int_def py_unsigned_def strip_def is_space_def digit_of_def)
  ultimately show ?thesis using p by blast
qed

subsection \<open>C8: the continuation marker\<close>

text \<open>
  Claim C8 as stated fails for a body that itself begins with \<open>=\<close>: only one marker
  is dropped, so the body \<open>=sabdb:2:...\<close> parses to a record while \<open>=\<close> followed by it
  raises.
\<close>

theorem double_marker_counterexample:
  "parse_statusline (Inr :: int \<Rightarrow> error + int) (Inr :: string \<Rightarrow> error + string)
     (''='' @ ''=sabdb:2:mydb,/var/db/mydb,0,1,sql,3,2,0,120,300,10,0,1700000000,-1,1,0.0,0.0'')
     = Inl (OperationalError ''wrong result recieved'') \<and>
   parse_statusline (Inr :: int \<Rightarrow> error + int) (Inr :: string \<Rightarrow> error + string)
     ''=sabdb:2:mydb,/var/db/mydb,0,1,sql,3,2,0,120,300,10,0,1700000000,-1,1,0.0,0.0''
     = Inr \<lparr> name = ''mydb'', path = ''/var/db/mydb'', locked = False, state = 1,
             scenarios = [''sql''], start_counter = 3, stop_counter = 2,
             crash_counter = 0, avg_uptime = 120, max_uptime = 300, min_uptime = 10,
             last_crash = Some 0, last_start = 1700000000, last_stop = Some None,
             crash_avg1 = True, crash_avg10 = ''0.0'', crash_avg30 = ''0.0'' \<rparr>"
  by (simp add: eval_simps)

text \<open>
  Claim C8, amended. For every body that does not itself begin with \<open>=\<close>, parsing
  \<open>=\<close> followed by the body and parsing the body give the same result, record or
  exception.
\<close>

theorem marker_optional:
  "\<not> startswith b ''='' \<Longrightarrow> parse_statusline ft fl (CHR ''='' # b) = parse_statusline ft fl b"
  by (simp add: parse_statusline_def strip_marker_def startswith_def)

text \<open>
  The theorem at a version 2 line.
\<close>

theorem marker_optional_witness:
  "\<not> startswith ''sabdb:2:mydb,/var/db/mydb,0,1,sql,3,2,0,120,300,10,0,1700000000,-1,1,0.0,0.0'' ''='' \<and>
   parse_statusline (Inr :: int \<Rightarrow> error + int) (Inr :: string \<Rightarrow> error + string)
     ''=sabdb:2:mydb,/var/db/mydb,0,1,sql,3,2,0,120,300,10,0,1700000000,-1,1,0.0,0.0'' =
   parse_statusline Inr Inr
     ''sabdb:2:mydb,/var/db/mydb,0,1,sql,3,2,0,120,300,10,0,1700000000,-1,1,0.0,0.0''"
proof -
  let ?L = "''sabdb:2:mydb,/var/db/mydb,0,1,sql,3,2,0,120,300,10,0,1700000000,-1,1,0.0,0.0''"
  have h: "\<not> startswith ?L ''=''" by (simp add: startswith_def)
  from marker_optional [OF h, of "Inr :: int \<Rightarrow> error + int" "Inr :: string \<Rightarrow> error + string"] h
  show ?thesis by simp
qed

subsection \<open>C9: the connection is closed\<close>

text \<open>
  Claim C9. Once \<^verbatim>\<open>connect\<close> has returned, \<^verbatim>\<open>_send_command\<close> calls \<^verbatim>\<open>cmd\<close>
  with the command line and then \<^verbatim>\<open>disconnect\<close>, whether \<^verbatim>\<open>cmd\<close> returned a reply
  or raised: the state it leaves is the one after \<^verbatim>\<open>disconnect\<close>, and its outcome is
  the outcome of \<^verbatim>\<open>cmd\<close> unless \<^verbatim>\<open>disconnect\<close> itself raises.
\<close>

theorem send_command_disconnects:
  assumes "connect server (connect_args self) s = (None, s1)"
    and "cmd server (db @ '' '' @ c @ ''\<newline>'') s1 = (r, s2)"
    and "disconnect server s2 = (d, s3)"
  shows "send_command server self db c s = ((case d of Some e \<Rightarrow> Inl e | None \<Rightarrow> r), s3)"
  using assms by (simp add: send_command_def split: option.splits)

text \<open>
  The theorem at two transports that log their calls: one whose \<^verbatim>\<open>cmd\<close> replies and
  one whose \<^verbatim>\<open>cmd\<close> raises. Both logs end with the disconnect.
\<close>

theorem send_command_disconnects_witness:
  "send_command
     \<lparr> connect = (\<lambda>a s. (None, s @ [''connect''])),
       cmd = (\<lambda>l s. (Inr ''reply'', s @ [l])),
       disconnect = (\<lambda>s. (None, s @ [''disconnect''])) \<rparr>
     \<lparr> hostname = None, port = 50000, passphrase = None, unix_socket = ''/tmp/.s.merovingian.50000'' \<rparr>
     ''db'' ''start'' []
     = (Inr ''reply'', [''connect'', ''db start\<newline>'', ''disconnect'']) \<and>
   send_command
     \<lparr> connect = (\<lambda>a s. (None, s @ [''connect''])),
       cmd = (\<lambda>l s. (Inl OSError, s @ [l])),
       disconnect = (\<lambda>s. (None, s @ [''disconnect''])) \<rparr>
     \<lparr> hostname = None, port = 50000, passphrase = None, unix_socket = ''/tmp/.s.merovingian.50000'' \<rparr>
     ''db'' ''start'' []
     = (Inl OSError, [''connect'', ''db start\<newline>'', ''disconnect''])"
proof -
  define self where
    "self = \<lparr> hostname = None, port = 50000, passphrase = None, unix_socket = ''/tmp/.s.merovingian.50000'' \<rparr>"
  define good :: "string list transport" where
    "good = \<lparr> connect = (\<lambda>a s. (None, s @ [''connect''])),
       cmd = (\<lambda>l s. (Inr ''reply'', s @ [l])),
       disconnect = (\<lambda>s. (None, s @ [''disconnect''])) \<rparr>"
  define bad :: "string list transport" where
    "bad = \<lparr> connect = (\<lambda>a s. (None, s @ [''connect''])),
       cmd = (\<lambda>l s. (Inl OSError, s @ [l])),
       disconnect = (\<lambda>s. (None, s @ [''disconnect''])) \<rparr>"
  have g: "connect good (connect_args self) [] = (None, [''connect''])"
    "cmd good (''db'' @ '' '' @ ''start'' @ ''\<newline>'') [''connect''] = (Inr ''reply'', [''connect'', ''db start\<newline>''])"
    "disconnect good [''connect'', ''db start\<newline>''] = (None, [''connect'', ''db start\<newline>'', ''disconnect''])"
    by (simp_all add: good_def)
  have b: "connect bad (connect_args self) [] = (None, [''connect''])"
    "cmd bad (''db'' @ '' '' @ ''start'' @ ''\<newline>'') [''connect''] = (Inl OSError, [''connect'', ''db start\<newline>''])"
    "disconnect bad [''connect'', ''db start\<newline>''] = (None, [''connect'', ''db start\<newline>'', ''disconnect''])"
    by (simp_all add: bad_def)
  from send_command_disconnects [OF g] send_command_disconnects [OF b]
  show ?thesis unfolding self_def good_def bad_def by simp
qed

text \<open>
  The \<^verbatim>\<open>connect\<close> call stands before the \<^verbatim>\<open>try\<close>: when it raises, its exception
  propagates and neither \<^verbatim>\<open>cmd\<close> nor \<^verbatim>\<open>disconnect\<close> is called.
\<close>

lemma send_command_connect_raises:
  assumes "connect server (connect_args self) s = (Some e, s1)"
  shows "send_command server self db c s = (Inl e, s1)"
  using assms by (simp add: send_command_def)

subsection \<open>C10: status of one database or of all\<close>

text \<open>
  Claim C10. For the default argument and for the empty string, \<^verbatim>\<open>status\<close> sends
  \<open>#all status\<close> and returns a list: it returns the list \<open>recs\<close> exactly when the lines
  of the reply, split at the newlines, parse to \<open>recs\<close> in order, and never a single
  record. For a non-empty name it sends that name and returns the single record its reply
  parses to, or the exception of the parser.
\<close>

theorem status_branches:
  assumes "connect server (connect_args self) s = (None, s1)"
    and "cmd server (target @ '' status\<newline>'') s1 = (Inr raw, s2)"
    and "disconnect server s2 = (None, s3)"
  shows "((d = None \<or> d = Some '''') \<and> target = ''#all'' \<longrightarrow>
           (\<exists>res. status ft fl server self d s = (res, s3) \<and>
                  (\<forall>i. res \<noteq> Inr (One i)) \<and>
                  (\<forall>recs. res = Inr (Many recs) \<longleftrightarrow>
                     map (parse_statusline ft fl) (py_split (CHR ''\<newline>'') raw) = map Inr recs))) \<and>
         (d = Some target \<and> target \<noteq> '''' \<longrightarrow>
           status ft fl server self d s = (map_sum id One (parse_statusline ft fl raw), s3))"
proof (intro conjI impI)
  assume a: "(d = None \<or> d = Some '''') \<and> target = ''#all''"
  then have f: "\<not> truthy d" by (auto simp: truthy_def)
  have sc: "send_command server self ''#all'' ''status'' s = (Inr raw, s3)"
    using assms a by (simp add: send_command_def)
  let ?res = "bind_err (parse_all ft fl (py_split (CHR ''\<newline>'') raw)) (\<lambda>is. Inr (Many is))"
  have st: "status ft fl server self d s = (?res, s3)"
    using f sc by (simp add: status_def on_reply_Inr)
  have "\<forall>i. ?res \<noteq> Inr (One i)"
    by (auto simp: bind_err_Inr_iff)
  moreover have "\<forall>recs. ?res = Inr (Many recs) \<longleftrightarrow>
      map (parse_statusline ft fl) (py_split (CHR ''\<newline>'') raw) = map Inr recs"
    by (auto simp: bind_err_Inr_iff parse_all_Inr_iff)
  ultimately show "\<exists>res. status ft fl server self d s = (res, s3) \<and>
                  (\<forall>i. res \<noteq> Inr (One i)) \<and>
                  (\<forall>recs. res = Inr (Many recs) \<longleftrightarrow>
                     map (parse_statusline ft fl) (py_split (CHR ''\<newline>'') raw) = map Inr recs)"
    using st by blast
next
  assume a: "d = Some target \<and> target \<noteq> ''''"
  then have t: "truthy d" "str_of d = target" by (auto simp: truthy_def str_of_def)
  have sc: "send_command server self target ''status'' s = (Inr raw, s3)"
    using assms by (simp add: send_command_def)
  show "status ft fl server self d s = (map_sum id One (parse_statusline ft fl raw), s3)"
    using t sc by (cases "parse_statusline ft fl raw") (simp_all add: status_def on_reply_Inr bind_err_def)
qed

text \<open>
  The theorem at a transport that answers \<open>#all status\<close> with two lines and any other
  request with the first of them: the default argument and the empty string give the list
  of both records, the name \<open>a\<close> gives the one record.
\<close>

theorem status_branches_witness:
  "let srv = \<lparr> connect = (\<lambda>a s. (None, s)),
                 cmd = (\<lambda>l s. (Inr (if l = ''#all status\<newline>''
                                      then ''sabdb:2:a,/a,0,1,sql,1,1,0,5,9,2,-1,100,-1,0,0.0,0.0'' @ ''\<newline>'' @
                                           ''sabdb:1:b,/b,1,0,sql'mal,x,1,1,0,5,9,2,7,100,1,0.5,0.1''
                                      else ''sabdb:2:a,/a,0,1,sql,1,1,0,5,9,2,-1,100,-1,0,0.0,0.0''), s)),
                 disconnect = (\<lambda>s. (None, s)) \<rparr>;
       self = \<lparr> hostname = None, port = 50000, passphrase = None, unix_socket = ''/tmp/.s.merovingian.50000'' \<rparr>;
       ra = \<lparr> name = ''a'', path = ''/a'', locked = False, state = 1, scenarios = [''sql''],
              start_counter = 1, stop_counter = 1, crash_counter = 0, avg_uptime = 5,
              max_uptime = 9, min_uptime = 2, last_crash = None, last_start = 100,
              last_stop = Some None, crash_avg1 = False, crash_avg10 = ''0.0'', crash_avg30 = ''0.0'' \<rparr>;
       rb = \<lparr> name = ''b'', path = ''/b'', locked = True, state = 0, scenarios = [''sql'', ''mal''],
              start_counter = 1, stop_counter = 1, crash_counter = 0, avg_uptime = 5,
              max_uptime = 9, min_uptime = 2, last_crash = Some 7, last_start = 100,
              last_stop = None, crash_avg1 = True, crash_avg10 = ''0.5'', crash_avg30 = ''0.1'' \<rparr>
   in status (Inr :: int \<Rightarrow> error + int) (Inr :: string \<Rightarrow> error + string) srv self None ()
        = (Inr (Many [ra, rb]), ()) \<and>
      status (Inr :: int \<Rightarrow> error + int) (Inr :: string \<Rightarrow> error + string) srv self (Some '''') ()
        = (Inr (Many [ra, rb]), ()) \<and>
      status (Inr :: int \<Rightarrow> error + int) (Inr :: string \<Rightarrow> error + string) srv self (Some ''a'') ()
        = (Inr (One ra), ())"
proof -
  let ?La = "''sabdb:2:a,/a,0,1,sql,1,1,0,5,9,2,-1,100,-1,0,0.0,0.0''"
  let ?Lb = "''sabdb:1:b,/b,1,0,sql'mal,x,1,1,0,5,9,2,7,100,1,0.5,0.1''"
  let ?ft = "Inr :: int \<Rightarrow> error + int"
  let ?fl = "Inr :: string \<Rightarrow> error + string"
  define srv :: "unit transport" where
    "srv = \<lparr> connect = (\<lambda>a s. (None, s)),
             cmd = (\<lambda>l s. (Inr (if l = ''#all status\<newline>'' then ?La @ ''\<newline>'' @ ?Lb else ?La), s)),
             disconnect = (\<lambda>s. (None, s)) \<rparr>"
  define self where
    "self = \<lparr> hostname = None, port = 50000, passphrase = None, unix_socket = ''/tmp/.s.merovingian.50000'' \<rparr>"
  define ra :: "(int, string) info" where
    "ra = \<lparr> name = ''a'', path = ''/a'', locked = False, state = 1, scenarios = [''sql''],
              start_counter = 1, stop_counter = 1, crash_counter = 0, avg_uptime = 5,
              max_uptime = 9, min_uptime = 2, last_crash = None, last_start = 100,
              last_stop = Some None, crash_avg1 = False, crash_avg10 = ''0.0'', crash_avg30 = ''0.0'' \<rparr>"
  define rb :: "(int, string) info" where
    "rb = \<lparr> name = ''b'', path = ''/b'', locked = True, state = 0, scenarios = [''sql'', ''mal''],
              start_counter = 1, stop_counter = 1, crash_counter = 0, avg_uptime = 5,
              max_uptime = 9, min_uptime = 2, last_crash = Some 7, last_start = 100,
              last_stop = None, crash_avg1 = True, crash_avg10 = ''0.5'', crash_avg30 = ''0.1'' \<rparr>"
  have pa: "parse_statusline ?ft ?fl ?La = Inr ra"
    unfolding ra_def by (simp add: eval_simps)
  have pb: "parse_statusline ?ft ?fl ?Lb = Inr rb"
    unfolding rb_def by (simp add: eval_simps)
  have lines: "py_split (CHR ''\<newline>'') (?La @ ''\<newline>'' @ ?Lb) = [?La, ?Lb]"
    by simp
  have c: "connect srv (connect_args self) () = (None, ())"
    and d: "disconnect srv () = (None, ())"
    and call: "cmd srv (''#all'' @ '' status\<newline>'') () = (Inr (?La @ ''\<newline>'' @ ?Lb), ())"
    and cone: "cmd srv (''a'' @ '' status\<newline>'') () = (Inr ?La, ())"
    by (simp_all add: srv_def)
  have many: "status ?ft ?fl srv self dn () = (Inr (Many [ra, rb]), ())"
    if "dn = None \<or> dn = Some ''''" for dn
  proof -
    from status_branches [OF c call d, of dn ?ft ?fl] that
    obtain res where res: "status ?ft ?fl srv self dn () = (res, ())"
      "\<forall>recs. res = Inr (Many recs) \<longleftrightarrow>
         map (parse_statusline ?ft ?fl) (py_split (CHR ''\<newline>'') (?La @ ''\<newline>'' @ ?Lb)) = map Inr recs"
      by auto
    have "map (parse_statusline ?ft ?fl) (py_split (CHR ''\<newline>'') (?La @ ''\<newline>'' @ ?Lb)) = map Inr [ra, rb]"
      unfolding lines using pa pb by simp
    with res(2) [rule_format, of "[ra, rb]"] have "res = Inr (Many [ra, rb])" by simp
    with res(1) show ?thesis by simp
  qed
  have one: "status ?ft ?fl srv self (Some ''a'') () = (Inr (One ra), ())"
    using status_branches [OF c cone d, of "Some ''a''" ?ft ?fl] pa by simp
  from many [of None] many [of "Some ''''"] one
  show ?thesis
    unfolding srv_def self_def ra_def rb_def Let_def by simp
qed

end
